theory Spec2Isabelle
  imports Complex_Main
begin

section \<open>JavaScript values used by the application\<close>

text \<open>
  A JavaScript \<open>number\<close> is an IEEE double. The functions modelled here never do
  arithmetic on numbers: they compare a number with a constant, test it for NaN and pass
  it on. A finite double is therefore embedded as the real it denotes, next to the three
  special values.
\<close>

datatype number = Num real | PosInf | NegInf | NaN

text \<open>The relational operator \<open>a > b\<close> on numbers: false as soon as one side is NaN.\<close>

fun gt :: "number \<Rightarrow> number \<Rightarrow> bool" where
  "gt NaN b = False"
| "gt a NaN = False"
| "gt (Num a) (Num b) = (b < a)"
| "gt (Num a) PosInf = False"
| "gt (Num a) NegInf = True"
| "gt PosInf PosInf = False"
| "gt PosInf b = True"
| "gt NegInf b = False"

fun isNaN :: "number \<Rightarrow> bool" where
  "isNaN NaN = True"
| "isNaN n = False"

text \<open>\<open>src/types/map.ts\<close>: a geographic point.\<close>

record GeoPoint =
  lat :: number
  lng :: number

section \<open>MapContext: the provider's pure operations\<close>

text \<open>
  \<open>toggleLayerVisibility\<close> is the functional state update
  \<open>prev => prev.includes(layerId) ? prev.filter(id => id !== layerId) : [...prev, layerId]\<close>
  applied to the \<open>visibleLayers\<close> state.
\<close>

definition toggleLayerVisibility :: "string \<Rightarrow> string list \<Rightarrow> string list" where
  "toggleLayerVisibility layerId prev =
     (if layerId \<in> set prev then filter (\<lambda>i. i \<noteq> layerId) prev else prev @ [layerId])"

text \<open>The placeholder \<open>calculateDistance\<close> of the provider: \<open>return 0\<close>.\<close>

definition calculateDistance :: "GeoPoint \<Rightarrow> GeoPoint \<Rightarrow> number" where
  "calculateDistance point1 point2 = Num 0"

section \<open>WindyService: the wrapper around the weather engine\<close>

text \<open>
  The engine object handed to the service (\<open>WindyAPI\<close>) is external. The model keeps what
  the service depends on. \<open>store\<close> is \<open>None\<close> when \<open>windyApi.store\<close> is missing; otherwise
  it tells, for a key and a value, whether \<open>store.set\<close> raises. \<open>overlays\<close> is \<open>None\<close> when
  the engine has no \<open>overlays\<close> table; otherwise a name has no entry (a falsy value), an
  entry that is a function and returns, or an entry whose call raises (a function that
  raises, or a truthy value that is not a function). Calls into the engine are recorded
  as effects, in order; what the engine does inside a call is not part of this
  repository.
\<close>

datatype overlayFn = NoEntry | Returns | Raises

record WindyAPI =
  store :: "(string \<Rightarrow> string \<Rightarrow> bool) option"
  overlays :: "(string \<Rightarrow> overlayFn) option"

type_synonym data = "(string \<times> string) list"

datatype 'cb effect =
    StoreSet string string
  | OverlayCall string
  | Invoke 'cb string data
  | ConsoleError string

record WindyLayer =
  layer_id :: string
  layer_name :: string
  overlayFunction :: string

text \<open>
  A listener is a function reference: \<open>'cb\<close> is its identity (what \<open>!==\<close> compares), and
  \<open>throws cb event data\<close> tells whether calling it raises.
\<close>

record 'cb WindyService =
  windyApi :: WindyAPI
  changeListeners :: "'cb list"
  throws :: "'cb \<Rightarrow> string \<Rightarrow> data \<Rightarrow> bool"

text \<open>\<open>forEach\<close> with a \<open>try/catch\<close> around every call: a raising listener is logged and
  the loop goes on.\<close>

fun notifyAll :: "('cb \<Rightarrow> string \<Rightarrow> data \<Rightarrow> bool) \<Rightarrow> 'cb list \<Rightarrow> string \<Rightarrow> data \<Rightarrow> 'cb effect list" where
  "notifyAll thr [] event d = []"
| "notifyAll thr (listener # rest) event d =
     Invoke listener event d
       # (if thr listener event d then [ConsoleError ''Error in Windy listener:''] else [])
       @ notifyAll thr rest event d"

definition notifyListeners :: "'cb WindyService \<Rightarrow> string \<Rightarrow> data \<Rightarrow> 'cb effect list" where
  "notifyListeners svc event d = notifyAll (throws svc) (changeListeners svc) event d"

definition addChangeListener :: "'cb \<Rightarrow> 'cb WindyService \<Rightarrow> 'cb WindyService" where
  "addChangeListener callback svc = svc\<lparr>changeListeners := changeListeners svc @ [callback]\<rparr>"

definition removeChangeListener :: "'cb \<Rightarrow> 'cb WindyService \<Rightarrow> 'cb WindyService" where
  "removeChangeListener callback svc =
     svc\<lparr>changeListeners := filter (\<lambda>cb. cb \<noteq> callback) (changeListeners svc)\<rparr>"

definition getAvailableLayers :: "WindyLayer list" where
  "getAvailableLayers =
     [\<lparr>layer_id = ''wind'', layer_name = ''Wind Layer'', overlayFunction = ''wind''\<rparr>,
      \<lparr>layer_id = ''temp'', layer_name = ''Temperature'', overlayFunction = ''temp''\<rparr>,
      \<lparr>layer_id = ''clouds'', layer_name = ''Clouds'', overlayFunction = ''clouds''\<rparr>,
      \<lparr>layer_id = ''pressure'', layer_name = ''Pressure'', overlayFunction = ''pressure''\<rparr>,
      \<lparr>layer_id = ''rainClouds'', layer_name = ''Rain & Clouds'', overlayFunction = ''rainClouds''\<rparr>]"

text \<open>
  \<open>setActiveLayer\<close>: the whole body is inside \<open>try\<close>, and the \<open>catch\<close> only logs. So
  whatever raises ends the method after a \<open>console.error\<close>, and the listeners are not
  notified: a missing store or a raising \<open>store.set\<close>; for a known layer, a missing
  \<open>overlays\<close> table (the lookup is a TypeError) or an overlay entry whose call raises. An
  unknown layer does not touch \<open>overlays\<close>. \<open>notifyListeners\<close> itself does not raise.
\<close>

definition setActiveLayer :: "string \<Rightarrow> 'cb WindyService \<Rightarrow> 'cb effect list" where
  "setActiveLayer layerId svc =
     (case store (windyApi svc) of
        None \<Rightarrow> [ConsoleError ''Error setting active layer:'']
      | Some setRaises \<Rightarrow>
          (if setRaises ''overlay'' layerId
           then [StoreSet ''overlay'' layerId, ConsoleError ''Error setting active layer:'']
           else
             [StoreSet ''overlay'' layerId]
             @ (case find (\<lambda>l. layer_id l = layerId) getAvailableLayers of
                  None \<Rightarrow> notifyListeners svc ''layerChange'' [(''layerId'', layerId)]
                | Some layer \<Rightarrow>
                    (case overlays (windyApi svc) of
                       None \<Rightarrow> [ConsoleError ''Error setting active layer:'']
                     | Some table \<Rightarrow>
                         (case table (overlayFunction layer) of
                            NoEntry \<Rightarrow>
                              notifyListeners svc ''layerChange'' [(''layerId'', layerId)]
                          | Returns \<Rightarrow>
                              OverlayCall (overlayFunction layer)
                                # notifyListeners svc ''layerChange'' [(''layerId'', layerId)]
                          | Raises \<Rightarrow>
                              [OverlayCall (overlayFunction layer),
                               ConsoleError ''Error setting active layer:''])))))"

text \<open>
  \<open>setAltitudeLevel\<close>: \<open>if (!this.windyApi.store) return;\<close>, then write and notify. There
  is no \<open>try\<close>: if \<open>store.set\<close> raises, the exception leaves the method (\<open>Inl\<close>, with the
  effects so far) and the listeners are not notified.
\<close>

definition setAltitudeLevel :: "string \<Rightarrow> 'cb WindyService \<Rightarrow> 'cb effect list + 'cb effect list" where
  "setAltitudeLevel level svc =
     (case store (windyApi svc) of
        None \<Rightarrow> Inr []
      | Some setRaises \<Rightarrow>
          (if setRaises ''level'' level then Inl [StoreSet ''level'' level]
           else Inr ([StoreSet ''level'' level]
                     @ notifyListeners svc ''levelChange'' [(''level'', level)])))"

section \<open>MapContainer: script loading, initialisation, rendering, zoom\<close>

text \<open>
  The component's React state, the part of the map context it reads and writes, the
  \<open>initAttemptedRef\<close>, the class list of the DOM element with id \<open>windy\<close> (\<open>None\<close> when
  the document has no such element) and, in \<open>trace\<close>, the effects on the document and
  the engine in the order they happen. An \<open>Error\<close> is kept as its message.
\<close>

datatype event =
    AppendScript string
  | AppendCss string
  | ScriptOnload string
  | ScriptOnerror string
  | SetScriptsLoaded
  | WindyInit
  | InvalidateSizeAfter nat

record MapContainer =
  scriptsLoaded :: bool
  status :: string
  initAttempted :: bool
  isMapLoading :: bool
  mapError :: "string option"
  windyInstance :: bool
  leafletMap :: bool
  windyService :: bool
  currentZoom :: number
  showBackupLayer :: bool
  windyClassList :: "string list option"
  trace :: "event list"

text \<open>What the page knows before anything loads: \<open>window.L\<close> and \<open>window.windyInit\<close>.\<close>

record Window =
  hasL :: bool
  windyInitIsFunction :: bool

datatype loadResult = Onload | Onerror

definition leafletJs :: string where
  "leafletJs = ''https://unpkg.com/leaflet@1.4.0/dist/leaflet.js''"

definition leafletCss :: string where
  "leafletCss = ''https://unpkg.com/leaflet@1.4.0/dist/leaflet.css''"

definition libBoot :: string where
  "libBoot = ''https://api.windy.com/assets/map-forecast/libBoot.js''"

text \<open>
  The state at mount: \<open>MapProvider\<close> starts with \<open>isMapLoading = true\<close>, no error and zoom 9;
  the component starts with \<open>scriptsLoaded = false\<close> and \<open>showBackupLayer = currentZoom > 10\<close>;
  the first render (the loading one) puts \<open><div id="windy" className="windy-container">\<close>
  into the document.
\<close>

definition mounted :: MapContainer where
  "mounted =
     \<lparr>scriptsLoaded = False, status = ''Initializing...'', initAttempted = False,
      isMapLoading = True, mapError = None, windyInstance = False, leafletMap = False,
      windyService = False, currentZoom = Num 9, showBackupLayer = gt (Num 9) (Num 10),
      windyClassList = Some [''windy-container''], trace = []\<rparr>"

definition emit :: "event list \<Rightarrow> MapContainer \<Rightarrow> MapContainer" where
  "emit es s = s\<lparr>trace := trace s @ es\<rparr>"

text \<open>
  The first awaited promise of \<open>loadScripts\<close>. The result is the rejection, if any, and the
  state reached. \<open>onload\<close> resolves without looking at \<open>window.L\<close>.
\<close>

definition loadLeaflet :: "Window \<Rightarrow> loadResult \<Rightarrow> MapContainer \<Rightarrow> string option \<times> MapContainer" where
  "loadLeaflet w r s =
     (if \<not> hasL w then
        (let s1 = emit [AppendScript leafletJs, AppendCss leafletCss] (s\<lparr>status := ''Loading Leaflet...''\<rparr>)
         in case r of
              Onload \<Rightarrow> (None, emit [ScriptOnload leafletJs] s1)
            | Onerror \<Rightarrow> (Some ''Failed to load Leaflet'', emit [ScriptOnerror leafletJs] s1))
      else (None, s))"

text \<open>
  The second promise: \<open>onload\<close> resolves only if the script has defined \<open>windyInit\<close>
  (\<open>defined\<close>), and rejects otherwise.
\<close>

definition loadWindy :: "Window \<Rightarrow> loadResult \<Rightarrow> bool \<Rightarrow> MapContainer \<Rightarrow> string option \<times> MapContainer" where
  "loadWindy w r defined s =
     (if \<not> windyInitIsFunction w then
        (let s1 = emit [AppendScript libBoot] (s\<lparr>status := ''Loading Windy API...''\<rparr>)
         in case r of
              Onload \<Rightarrow>
                (if defined then (None, emit [ScriptOnload libBoot] s1)
                 else (Some ''Windy API loaded but windyInit function not found'',
                       emit [ScriptOnload libBoot] s1))
            | Onerror \<Rightarrow> (Some ''Failed to load Windy API'', emit [ScriptOnerror libBoot] s1))
      else (None, s))"

definition loadScriptsCatch :: "string \<Rightarrow> MapContainer \<Rightarrow> MapContainer" where
  "loadScriptsCatch err s = s\<lparr>mapError := Some err, status := ''Failed to load scripts''\<rparr>"

definition loadScripts :: "Window \<Rightarrow> loadResult \<Rightarrow> loadResult \<Rightarrow> bool \<Rightarrow> MapContainer \<Rightarrow> MapContainer" where
  "loadScripts w leaflet windy defined s =
     (case loadLeaflet w leaflet s of
        (Some err, s1) \<Rightarrow> loadScriptsCatch err s1
      | (None, s1) \<Rightarrow>
          (case loadWindy w windy defined s1 of
             (Some err, s2) \<Rightarrow> loadScriptsCatch err s2
           | (None, s2) \<Rightarrow>
               emit [SetScriptsLoaded]
                 (s2\<lparr>scriptsLoaded := True, status := ''Scripts loaded successfully''\<rparr>)))"

text \<open>The page after \<open>loadScripts\<close>: a loaded engine script may have defined \<open>windyInit\<close>.\<close>

definition windowAfter :: "Window \<Rightarrow> loadResult \<Rightarrow> loadResult \<Rightarrow> bool \<Rightarrow> Window" where
  "windowAfter w leaflet windy defined =
     (if (hasL w \<or> leaflet = Onload) \<and> \<not> windyInitIsFunction w \<and> windy = Onload
      then w\<lparr>windyInitIsFunction := defined\<rparr> else w)"

text \<open>
  The initialisation effect. \<open>container\<close> is \<open>windyContainerRef.current\<close> being set;
  \<open>raises\<close> is the exception \<open>window.windyInit\<close> throws, if it does. The callback passed
  to \<open>windyInit\<close> is \<open>windyInitCallback\<close> below, run by the engine when it is ready.
\<close>

definition initializeWindyCatch :: "string \<Rightarrow> MapContainer \<Rightarrow> MapContainer" where
  "initializeWindyCatch err s =
     s\<lparr>initAttempted := False, mapError := Some err, status := ''Failed to initialize Windy''\<rparr>"

definition initializeWindy :: "Window \<Rightarrow> bool \<Rightarrow> string option \<Rightarrow> MapContainer \<Rightarrow> MapContainer" where
  "initializeWindy w container raises s =
     (if initAttempted s \<or> \<not> scriptsLoaded s \<or> \<not> container then s
      else
        (let s1 = s\<lparr>initAttempted := True, status := ''Initializing Windy...''\<rparr>
         in if \<not> windyInitIsFunction w
            then initializeWindyCatch ''windyInit function not available'' s1
            else (case raises of
                    Some err \<Rightarrow> initializeWindyCatch err (emit [WindyInit] s1)
                  | None \<Rightarrow> emit [WindyInit] s1)))"

text \<open>
  The callback: \<open>hasMap\<close> is \<open>windyAPI.map\<close> being there. Whether the service constructor
  raises or not, \<open>setIsMapLoading(false)\<close> runs; \<open>serviceOk\<close> only decides if the service
  is stored.
\<close>

definition windyInitCallback :: "bool \<Rightarrow> bool \<Rightarrow> MapContainer \<Rightarrow> MapContainer" where
  "windyInitCallback hasMap serviceOk s =
     s\<lparr>status := ''Windy initialized successfully'', windyInstance := True,
       leafletMap := hasMap, windyService := serviceOk, isMapLoading := False\<rparr>"

text \<open>The three returns of the component, in the order of the source.\<close>

datatype view = LoadingOverlay string | ErrorOverlay string | MapView bool

definition render :: "MapContainer \<Rightarrow> view" where
  "render s =
     (if isMapLoading s then LoadingOverlay (status s)
      else (case mapError s of
              Some message \<Rightarrow> ErrorOverlay message
            | None \<Rightarrow> MapView (showBackupLayer s)))"

text \<open>The loading view and the map view contain the \<open>windy\<close> container, the error view
  does not.\<close>

fun hasWindyContainer :: "view \<Rightarrow> bool" where
  "hasWindyContainer (ErrorOverlay m) = False"
| "hasWindyContainer v = True"

text \<open>
  Start-up as React runs it: both effects run after the first render, the initialisation
  effect still with \<open>scriptsLoaded = false\<close>; when \<open>loadScripts\<close> has set its state the
  component renders again and the initialisation effect runs with the new state.
\<close>

definition startup :: "Window \<Rightarrow> loadResult \<Rightarrow> loadResult \<Rightarrow> bool \<Rightarrow> string option \<Rightarrow> MapContainer" where
  "startup w leaflet windy defined raises =
     (let s0 = initializeWindy w (hasWindyContainer (render mounted)) raises mounted;
          s1 = loadScripts w leaflet windy defined s0
      in initializeWindy (windowAfter w leaflet windy defined)
           (hasWindyContainer (render s1)) raises s1)"

text \<open>\<open>precedes a b es\<close>: no \<open>b\<close> occurs in \<open>es\<close> before the first \<open>a\<close>.\<close>

fun precedes :: "event \<Rightarrow> event \<Rightarrow> event list \<Rightarrow> bool" where
  "precedes a b [] = True"
| "precedes a b (e # es) = (if e = a then True else if e = b then False else precedes a b es)"

subsection \<open>Zoom handlers\<close>

text \<open>\<open>classList.add\<close> and \<open>classList.remove\<close> on a token list.\<close>

definition classListAdd :: "string \<Rightarrow> string list \<Rightarrow> string list" where
  "classListAdd c cs = (if c \<in> set cs then cs else cs @ [c])"

definition classListRemove :: "string \<Rightarrow> string list \<Rightarrow> string list" where
  "classListRemove c cs = filter (\<lambda>x. x \<noteq> c) cs"

text \<open>\<open>document.getElementById('windy')?.classList\<close>: nothing happens without the element.\<close>

definition windyHidden :: "bool \<Rightarrow> MapContainer \<Rightarrow> MapContainer" where
  "windyHidden hide s =
     s\<lparr>windyClassList :=
         map_option (if hide then classListAdd ''windy-hidden'' else classListRemove ''windy-hidden'')
           (windyClassList s)\<rparr>"

definition hasClass :: "string \<Rightarrow> MapContainer \<Rightarrow> bool" where
  "hasClass c s = (case windyClassList s of None \<Rightarrow> False | Some cs \<Rightarrow> c \<in> set cs)"

text \<open>The \<open>zoomend\<close> handler; \<open>newZoom\<close> is \<open>leafletMap.getZoom()\<close>.\<close>

definition handleZoomEnd :: "number \<Rightarrow> MapContainer \<Rightarrow> MapContainer" where
  "handleZoomEnd newZoom s =
     (let shouldShowDetailedView = gt newZoom (Num 10);
          s1 = s\<lparr>currentZoom := newZoom, showBackupLayer := shouldShowDetailedView\<rparr>
      in if shouldShowDetailedView
         then emit [InvalidateSizeAfter 100] (windyHidden True s1)
         else windyHidden False s1)"

text \<open>
  The \<open>redrawFinished\<close> handler. \<open>mapCoords\<close> is \<open>store.get('mapCoords')\<close>, given by its
  \<open>zoom\<close>; destructuring a missing value is a TypeError that leaves the handler.
  \<open>hasMap\<close> is \<open>windyAPI.map\<close> being there.
\<close>

definition redrawFinished :: "bool \<Rightarrow> number option \<Rightarrow> MapContainer \<Rightarrow> string + MapContainer" where
  "redrawFinished hasMap mapCoords s =
     (case mapCoords of
        None \<Rightarrow> Inl ''TypeError''
      | Some zoom \<Rightarrow>
          (let shouldShowDetailedView = gt zoom (Num 10);
               s1 = s\<lparr>currentZoom := zoom, showBackupLayer := shouldShowDetailedView\<rparr>
           in Inr (if hasMap \<and> shouldShowDetailedView
                   then windyHidden True s1
                   else windyHidden False s1)))"

section \<open>Environment configuration\<close>

text \<open>
  \<open>window._env_\<close> is optional (\<open>None\<close> when the page has not injected it) and, like
  \<open>process.env\<close>, a table from names to strings. The first test of \<open>getEnvVar\<close> is a
  truthiness test, and the empty string is falsy; the second is \<open>!== undefined\<close>.
\<close>

definition getEnvVar :: "(string \<rightharpoonup> string) option \<Rightarrow> (string \<rightharpoonup> string) \<Rightarrow> string \<Rightarrow> string \<Rightarrow> string" where
  "getEnvVar window_env process_env key fallback =
     (case window_env of
        Some e \<Rightarrow>
          (case e (''REACT_APP_'' @ key) of
             Some v \<Rightarrow>
               (if v \<noteq> [] then v
                else (case process_env (''REACT_APP_'' @ key) of
                        Some envVar \<Rightarrow> envVar | None \<Rightarrow> fallback))
           | None \<Rightarrow>
               (case process_env (''REACT_APP_'' @ key) of
                  Some envVar \<Rightarrow> envVar | None \<Rightarrow> fallback))
      | None \<Rightarrow>
          (case process_env (''REACT_APP_'' @ key) of
             Some envVar \<Rightarrow> envVar | None \<Rightarrow> fallback))"

text \<open>\<open>parseFloat\<close> belongs to the language, not to the repository: it is a parameter.\<close>

definition parseNumber :: "(string \<Rightarrow> number) \<Rightarrow> string \<Rightarrow> number \<Rightarrow> number" where
  "parseNumber parseFloat v fallback =
     (let parsed = parseFloat v in if isNaN parsed then fallback else parsed)"

record AppEnv =
  API_URL :: string
  WINDY_API_KEY :: string
  MAP_CENTER_LAT :: number
  MAP_CENTER_LNG :: number
  MAP_DEFAULT_ZOOM :: number
  DETAILED_TILES_URL :: string

definition env :: "(string \<Rightarrow> number) \<Rightarrow> (string \<rightharpoonup> string) option \<Rightarrow> (string \<rightharpoonup> string) \<Rightarrow> AppEnv" where
  "env parseFloat window_env process_env =
     \<lparr>API_URL = getEnvVar window_env process_env ''API_URL'' ''http://localhost:3001/api'',
      WINDY_API_KEY = getEnvVar window_env process_env ''WINDY_API_KEY'' [],
      MAP_CENTER_LAT =
        parseNumber parseFloat (getEnvVar window_env process_env ''MAP_CENTER_LAT'' ''10.835'')
          (Num 10.835),
      MAP_CENTER_LNG =
        parseNumber parseFloat (getEnvVar window_env process_env ''MAP_CENTER_LNG'' ''106.769'')
          (Num 106.769),
      MAP_DEFAULT_ZOOM =
        parseNumber parseFloat (getEnvVar window_env process_env ''MAP_DEFAULT_ZOOM'' ''9'')
          (Num 9),
      DETAILED_TILES_URL =
        getEnvVar window_env process_env ''DETAILED_TILES_URL''
          ''https://server.arcgisonline.com/ArcGIS/rest/services/World_Imagery/MapServer/tile/{z}/{y}/{x}''\<rparr>"

section \<open>Mock data and the data-fetching hook\<close>

text \<open>
  \<open>DataPoint\<close> with the fields the mock service fills in; \<open>name\<close> and \<open>description\<close> are
  optional in the interface, and its \<open>type\<close> and \<open>properties\<close> are never set here.
\<close>

record DataPoint =
  dp_id :: string
  dp_lat :: number
  dp_lng :: number
  dp_value :: number
  dp_name :: "string option"
  dp_description :: "string option"

definition getDataPoints :: "string \<Rightarrow> DataPoint list" where
  "getDataPoints dataset =
     (if dataset = ''weather-stations'' then
        [\<lparr>dp_id = ''station1'', dp_lat = Num 10.835, dp_lng = Num 106.769, dp_value = Num 75,
          dp_name = Some ''Station Alpha'',
          dp_description = Some ''Weather monitoring station in central location''\<rparr>,
         \<lparr>dp_id = ''station2'', dp_lat = Num 10.855, dp_lng = Num 106.789, dp_value = Num 42,
          dp_name = Some ''Station Beta'', dp_description = Some ''Urban environment station''\<rparr>,
         \<lparr>dp_id = ''station3'', dp_lat = Num 10.815, dp_lng = Num 106.749, dp_value = Num 88,
          dp_name = Some ''Station Gamma'',
          dp_description = Some ''High precision weather station''\<rparr>]
      else if dataset = ''pollution-data'' then
        [\<lparr>dp_id = ''pollution1'', dp_lat = Num 10.835, dp_lng = Num 106.769, dp_value = Num 65,
          dp_name = Some ''Air Quality Station 1'', dp_description = Some ''PM2.5 concentration''\<rparr>,
         \<lparr>dp_id = ''pollution2'', dp_lat = Num 10.855, dp_lng = Num 106.789, dp_value = Num 35,
          dp_name = Some ''Air Quality Station 2'', dp_description = Some ''PM2.5 concentration''\<rparr>,
         \<lparr>dp_id = ''pollution3'', dp_lat = Num 10.815, dp_lng = Num 106.749, dp_value = Num 82,
          dp_name = Some ''Air Quality Station 3'', dp_description = Some ''PM2.5 concentration''\<rparr>]
      else
        [\<lparr>dp_id = ''point1'', dp_lat = Num 10.835, dp_lng = Num 106.769, dp_value = Num 50,
          dp_name = Some ''Sample Point 1'', dp_description = Some ''Generic data point''\<rparr>,
         \<lparr>dp_id = ''point2'', dp_lat = Num 10.855, dp_lng = Num 106.789, dp_value = Num 50,
          dp_name = Some ''Sample Point 2'', dp_description = Some ''Generic data point''\<rparr>])"

text \<open>
  \<open>String.prototype.split\<close> with a one-character separator: the pieces between the
  separators, never an empty array.
\<close>

fun split :: "char \<Rightarrow> string \<Rightarrow> string list" where
  "split sep [] = [[]]"
| "split sep (c # cs) =
     (if c = sep then [] # split sep cs
      else (case split sep cs of
              [] \<Rightarrow> [[c]]
            | piece # pieces \<Rightarrow> (c # piece) # pieces))"

text \<open>\<open>Array.prototype.pop\<close> as a value: the last element, \<open>undefined\<close> on an empty array.\<close>

definition pop :: "'a list \<Rightarrow> 'a option" where
  "pop xs = (if xs = [] then None else Some (last xs))"

datatype httpMethod = GET | POST | PUT | DELETE

text \<open>
  \<open>FetchOptions\<close>, and \<open>Partial<FetchOptions>\<close> for the argument of \<open>fetchData\<close>: there a
  field is \<open>None\<close> when the object does not have the property. A \<open>body\<close> is kept as the
  text \<open>JSON.stringify\<close> gives for it; the field \<open>method\<close> is \<open>method_http\<close> here.
\<close>

record FetchOptions =
  endpoint :: string
  method_http :: "httpMethod option"
  params :: "(string \<times> string) list option"
  body :: "string option"
  headers :: "(string \<rightharpoonup> string) option"
  autoFetch :: "bool option"

record PartialFetchOptions =
  custom_endpoint :: "string option"
  custom_method :: "httpMethod option"
  custom_params :: "(string \<times> string) list option"
  custom_body :: "string option"
  custom_headers :: "(string \<rightharpoonup> string) option"
  custom_autoFetch :: "bool option"

text \<open>\<open>{ ...options, ...customOptions }\<close>\<close>

definition mergeOptions :: "FetchOptions \<Rightarrow> PartialFetchOptions option \<Rightarrow> FetchOptions" where
  "mergeOptions options customOptions =
     (case customOptions of
        None \<Rightarrow> options
      | Some c \<Rightarrow>
          \<lparr>endpoint = (case custom_endpoint c of Some e \<Rightarrow> e | None \<Rightarrow> endpoint options),
           method_http =
             (case custom_method c of Some m \<Rightarrow> Some m | None \<Rightarrow> method_http options),
           params = (case custom_params c of Some p \<Rightarrow> Some p | None \<Rightarrow> params options),
           body = (case custom_body c of Some b \<Rightarrow> Some b | None \<Rightarrow> body options),
           headers = (case custom_headers c of Some h \<Rightarrow> Some h | None \<Rightarrow> headers options),
           autoFetch = (case custom_autoFetch c of Some a \<Rightarrow> Some a | None \<Rightarrow> autoFetch options)\<rparr>)"

text \<open>
  The data of the hook is of the caller's type \<open>T\<close>: the mock records are cast to it, a
  real response is the parsed JSON (\<open>'j\<close>).
\<close>

datatype 'j payload = Records "DataPoint list" | Json 'j

record 'j FetchState =
  data :: "'j payload option"
  loading :: bool
  error :: "string option"
  timestamp :: "nat option"

record Request =
  req_method :: "httpMethod option"
  req_headers :: "string \<rightharpoonup> string"
  req_body :: "string option"

text \<open>
  What the browser gives back: \<open>new URL(base)\<close> with the query parameters appended and
  turned into a string (\<open>Inl\<close>: the message of the error the constructor raised), and the
  outcome of \<open>fetch\<close>: a
  rejection, or a response with \<open>ok\<close>, the status and status text as printed, and the
  parsed body (\<open>Inl\<close> when \<open>response.json()\<close> rejects).
\<close>

datatype 'j fetched = Rejected string | Response bool string string "string + 'j"

record 'j Browser =
  newURL :: "string \<Rightarrow> (string \<times> string) list \<Rightarrow> string + string"
  fetch :: "string \<Rightarrow> Request \<Rightarrow> 'j fetched"

datatype 'j fetchEvent =
    SetState "'j FetchState"
  | SetTimeout nat
  | NetworkCall string Request

fun isNetworkCall :: "'j fetchEvent \<Rightarrow> bool" where
  "isNetworkCall (NetworkCall url req) = True"
| "isNetworkCall e = False"

definition USE_MOCK_DATA :: bool where
  "USE_MOCK_DATA = True"

text \<open>\<open>endpoint.split('/').pop() || endpoint\<close>, then the mock service.\<close>

definition datasetName :: "string \<Rightarrow> string" where
  "datasetName e =
     (case pop (split CHR ''/'' e) of
        None \<Rightarrow> e
      | Some piece \<Rightarrow> if piece \<noteq> [] then piece else e)"

definition getMockData :: "FetchOptions \<Rightarrow> 'j payload" where
  "getMockData options = Records (getDataPoints (datasetName (endpoint options)))"

text \<open>\<open>buildUrl\<close> of the hook: its own endpoint and its own \<open>params\<close> (\<open>{}\<close> by default).\<close>

definition buildUrl :: "'j Browser \<Rightarrow> string \<Rightarrow> FetchOptions \<Rightarrow> string + string" where
  "buildUrl br apiUrl options =
     newURL br (apiUrl @ ''/'' @ endpoint options)
       (case params options of None \<Rightarrow> [] | Some ps \<Rightarrow> ps)"

text \<open>The \<open>catch\<close> of both branches: keep the data, stop loading, store the error, rethrow.\<close>

definition fetchFailed :: "'j fetchEvent list \<Rightarrow> string \<Rightarrow> nat \<Rightarrow> 'j FetchState
    \<Rightarrow> 'j fetchEvent list \<times> 'j FetchState \<times> (string + 'j payload)" where
  "fetchFailed done err now s =
     (let s' = s\<lparr>loading := False, error := Some err, timestamp := Some now\<rparr>
      in (done @ [SetState s'], s', Inl err))"

text \<open>The branch that calls the API.\<close>

definition fetchFromApi :: "'j Browser \<Rightarrow> string \<Rightarrow> FetchOptions \<Rightarrow> PartialFetchOptions option \<Rightarrow> nat
    \<Rightarrow> 'j FetchState \<Rightarrow> 'j fetchEvent list \<times> 'j FetchState \<times> (string + 'j payload)" where
  "fetchFromApi br apiUrl options customOptions now s1 =
     (let mergedOptions = mergeOptions options customOptions;
          requestOptions =
            \<lparr>req_method = method_http mergedOptions,
             req_headers =
               [''Content-Type'' \<mapsto> ''application/json'']
                 ++ (case headers mergedOptions of None \<Rightarrow> Map.empty | Some h \<Rightarrow> h),
             req_body =
               (if method_http mergedOptions \<noteq> Some GET then body mergedOptions else None)\<rparr>;
          url =
            (case customOptions of
               None \<Rightarrow> buildUrl br apiUrl options
             | Some c \<Rightarrow>
                 (case custom_params c of
                    Some p \<Rightarrow> newURL br (apiUrl @ ''/'' @ endpoint mergedOptions) []
                  | None \<Rightarrow> buildUrl br apiUrl options))
      in case url of
           Inl err \<Rightarrow> fetchFailed [SetState s1] err now s1
         | Inr u \<Rightarrow>
             (case fetch br u requestOptions of
                Rejected err \<Rightarrow> fetchFailed [SetState s1, NetworkCall u requestOptions] err now s1
              | Response ok st statusText parsed \<Rightarrow>
                  (if \<not> ok then
                     fetchFailed [SetState s1, NetworkCall u requestOptions]
                       (''API error: '' @ st @ '' '' @ statusText) now s1
                   else (case parsed of
                           Inl err \<Rightarrow>
                             fetchFailed [SetState s1, NetworkCall u requestOptions] err now s1
                         | Inr responseData \<Rightarrow>
                             (let s2 = \<lparr>data = Some (Json responseData), loading = False,
                                        error = None, timestamp = Some now\<rparr>
                              in ([SetState s1, NetworkCall u requestOptions, SetState s2], s2,
                                  Inr (Json responseData)))))))"

text \<open>
  \<open>fetchData\<close>: the events in order, the state of the hook afterwards, and how the promise
  settles (\<open>Inr\<close> the value it resolves with, \<open>Inl\<close> the error it rejects with). \<open>now\<close> is
  \<open>Date.now()\<close> at the time of the last state update. In the mock branch nothing inside
  \<open>try\<close> can raise: the timer promise always resolves and the mock service is total.
\<close>

definition fetchData :: "'j Browser \<Rightarrow> string \<Rightarrow> FetchOptions \<Rightarrow> PartialFetchOptions option \<Rightarrow> nat
    \<Rightarrow> 'j FetchState \<Rightarrow> 'j fetchEvent list \<times> 'j FetchState \<times> (string + 'j payload)" where
  "fetchData br apiUrl options customOptions now prev =
     (let s1 = prev\<lparr>loading := True, error := None\<rparr>
      in if USE_MOCK_DATA then
           (let mockData = getMockData options;
                s2 = \<lparr>data = Some mockData, loading = False, error = None, timestamp = Some now\<rparr>
            in ([SetState s1, SetTimeout 500, SetState s2], s2, Inr mockData))
         else fetchFromApi br apiUrl options customOptions now s1)"

section \<open>Concrete configurations used in the examples\<close>

text \<open>The listeners invoked by a list of effects, in order.\<close>

fun invocations :: "'cb effect list \<Rightarrow> ('cb \<times> string \<times> data) list" where
  "invocations [] = []"
| "invocations (Invoke cb event d # es) = (cb, event, d) # invocations es"
| "invocations (e # es) = invocations es"

text \<open>
  A store whose \<open>set\<close> always returns. An engine with that store and an empty \<open>overlays\<close>
  table, one with the five overlay functions, and one whose overlay functions all
  raise; listeners numbered by \<open>nat\<close> that never raise.
\<close>

definition returning :: "string \<Rightarrow> string \<Rightarrow> bool" where
  "returning key v = False"

definition noOverlays :: "string \<Rightarrow> overlayFn" where
  "noOverlays name = NoEntry"

definition knownOverlays :: "string \<Rightarrow> overlayFn" where
  "knownOverlays name =
     (if name \<in> set (map overlayFunction getAvailableLayers) then Returns else NoEntry)"

definition raisingOverlays :: "string \<Rightarrow> overlayFn" where
  "raisingOverlays name = Raises"

definition quiet :: "nat \<Rightarrow> string \<Rightarrow> data \<Rightarrow> bool" where
  "quiet cb event d = False"

definition bareService :: "nat WindyService" where
  "bareService =
     \<lparr>windyApi = \<lparr>store = Some returning, overlays = Some noOverlays\<rparr>,
      changeListeners = [1, 2], throws = quiet\<rparr>"

definition fullService :: "nat WindyService" where
  "fullService =
     \<lparr>windyApi = \<lparr>store = Some returning, overlays = Some knownOverlays\<rparr>,
      changeListeners = [1, 2], throws = quiet\<rparr>"

definition brokenService :: "nat WindyService" where
  "brokenService =
     \<lparr>windyApi = \<lparr>store = Some returning, overlays = Some raisingOverlays\<rparr>,
      changeListeners = [1, 2], throws = quiet\<rparr>"

text \<open>A page whose runtime configuration has \<open>REACT_APP_API_URL\<close> set to the empty string,
  one with a value, and build-time tables.\<close>

definition injectedEmpty :: "string \<rightharpoonup> string" where
  "injectedEmpty = [''REACT_APP_API_URL'' \<mapsto> []]"

definition injected :: "string \<rightharpoonup> string" where
  "injected = [''REACT_APP_API_URL'' \<mapsto> ''https://api.example.org'']"

definition noBuildEnv :: "string \<rightharpoonup> string" where
  "noBuildEnv = Map.empty"

definition buildEnv :: "string \<rightharpoonup> string" where
  "buildEnv = [''REACT_APP_API_URL'' \<mapsto> ''https://build.example.org'',
               ''REACT_APP_MAP_DEFAULT_ZOOM'' \<mapsto> ''far'']"

text \<open>A \<open>parseFloat\<close> that knows two inputs; every other string is not a number.\<close>

definition parseFloatSample :: "string \<Rightarrow> number" where
  "parseFloatSample v =
     (if v = ''9'' then Num 9 else if v = ''12.5'' then Num 12.5 else NaN)"

text \<open>A page with both libraries already there, and one with neither.\<close>

definition readyWindow :: Window where
  "readyWindow = \<lparr>hasL = True, windyInitIsFunction = True\<rparr>"

definition emptyWindow :: Window where
  "emptyWindow = \<lparr>hasL = False, windyInitIsFunction = False\<rparr>"

text \<open>A browser that is never reached by the mock branch, and a hook's options.\<close>

definition offline :: "unit Browser" where
  "offline = \<lparr>newURL = (\<lambda>base ps. Inl ''Invalid URL''), fetch = (\<lambda>url req. Rejected ''offline'')\<rparr>"

definition stationOptions :: FetchOptions where
  "stationOptions =
     \<lparr>endpoint = ''data/weather-stations'', method_http = None, params = None, body = None,
      headers = None, autoFetch = None\<rparr>"

definition idle :: "unit FetchState" where
  "idle = \<lparr>data = None, loading = False, error = None, timestamp = None\<rparr>"

text \<open>
  The engine has called back without a map, and the map view is already in detailed mode
  (a redraw at zoom 11 has been rendered).
\<close>

definition detailedNoMap :: MapContainer where
  "detailedNoMap =
     (windyInitCallback False True (startup readyWindow Onload Onload True None))
       \<lparr>currentZoom := Num 11, showBackupLayer := True,
        windyClassList := Some [''windy-container'', ''windy-hidden'']\<rparr>"

section \<open>Auxiliary facts\<close>

lemma invocations_append: "invocations (xs @ ys) = invocations xs @ invocations ys"
  by (induction xs rule: invocations.induct) auto

lemma invocations_notifyAll: "invocations (notifyAll thr ls ev d) = map (\<lambda>l. (l, ev, d)) ls"
  by (induction ls) (auto simp: invocations_append)

lemma split_nonempty: "split sep s \<noteq> []"
  by (induction s) (auto split: list.splits)

lemma overlayFunction_is_id: "\<forall>l \<in> set getAvailableLayers. overlayFunction l = layer_id l"
  by (simp add: getAvailableLayers_def)

lemma find_known_layer:
  assumes "find (\<lambda>l. layer_id l = layerId) getAvailableLayers = Some layer"
  shows "overlayFunction layer = layerId \<and> layerId \<in> set (map layer_id getAvailableLayers)"
proof -
  from assms have "layer \<in> set getAvailableLayers" and "layer_id layer = layerId"
    by (auto simp: find_Some_iff in_set_conv_nth)
  then show ?thesis using overlayFunction_is_id by force
qed

lemma find_unknown_layer:
  assumes "find (\<lambda>l. layer_id l = layerId) getAvailableLayers = None"
  shows "layerId \<notin> set (map layer_id getAvailableLayers)"
  using assms by (auto simp: find_None_iff)

lemma filter_other_snoc:
  assumes "distinct xs" and "x \<in> set xs"
  shows "(filter (\<lambda>i. i \<noteq> x) xs @ [x] = xs) = (last xs = x)"
proof
  assume "filter (\<lambda>i. i \<noteq> x) xs @ [x] = xs"
  then have "last xs = last (filter (\<lambda>i. i \<noteq> x) xs @ [x])" by simp
  then show "last xs = x" by simp
next
  assume l: "last xs = x"
  from assms(2) have "xs \<noteq> []" by auto
  with l obtain ys where xs: "xs = ys @ [x]"
    by (metis append_butlast_last_id)
  from assms(1) have "x \<notin> set ys" unfolding xs by simp
  then have "filter (\<lambda>i. i \<noteq> x) ys = ys"
    by (auto simp: filter_id_conv)
  then show "filter (\<lambda>i. i \<noteq> x) xs @ [x] = xs" unfolding xs by simp
qed

section \<open>The map context\<close>

text \<open>
  C10. The \<open>calculateDistance\<close> that \<open>MapProvider\<close> puts on the context is a stub: whatever
  the two points are, it returns 0.
\<close>

theorem calculateDistance_is_zero: "calculateDistance point1 point2 = Num 0"
  by (simp add: calculateDistance_def)

text \<open>
  C8, as stated, fails in its last part: toggling a visible layer twice does not give the
  list back when the layer was not the last entry. With \<open>wind\<close> and \<open>temp\<close> visible,
  toggling \<open>wind\<close> twice leaves \<open>temp\<close> first.
\<close>

theorem toggle_twice_reorders:
  "distinct [''wind'', ''temp''] \<and>
   toggleLayerVisibility ''wind'' (toggleLayerVisibility ''wind'' [''wind'', ''temp''])
     = [''temp'', ''wind'']"
  by (simp add: toggleLayerVisibility_def)

text \<open>
  C8, amended. On a list of visible ids without duplicates, \<open>toggleLayerVisibility\<close>
  negates the membership of \<open>layerId\<close>, leaves the membership of every other id as it was
  and keeps the list free of duplicates. Toggling twice gives back the same set of ids;
  it gives back the same list exactly when \<open>layerId\<close> was not visible or was the last
  entry (otherwise \<open>layerId\<close> has moved to the end).
\<close>

theorem toggleLayerVisibility_membership:
  assumes "distinct prev"
  shows "(layerId \<in> set (toggleLayerVisibility layerId prev)) = (layerId \<notin> set prev)
       \<and> (\<forall>other. other \<noteq> layerId \<longrightarrow>
            (other \<in> set (toggleLayerVisibility layerId prev)) = (other \<in> set prev))
       \<and> distinct (toggleLayerVisibility layerId prev)
       \<and> set (toggleLayerVisibility layerId (toggleLayerVisibility layerId prev)) = set prev
       \<and> (toggleLayerVisibility layerId (toggleLayerVisibility layerId prev) = prev)
           = (layerId \<notin> set prev \<or> last prev = layerId)"
proof (cases "layerId \<in> set prev")
  case True
  have twice: "toggleLayerVisibility layerId (toggleLayerVisibility layerId prev)
                 = filter (\<lambda>i. i \<noteq> layerId) prev @ [layerId]"
    using True by (simp add: toggleLayerVisibility_def)
  have "set (filter (\<lambda>i. i \<noteq> layerId) prev @ [layerId]) = set prev"
    using True by auto
  moreover have "(filter (\<lambda>i. i \<noteq> layerId) prev @ [layerId] = prev) = (last prev = layerId)"
    using assms True by (rule filter_other_snoc)
  ultimately show ?thesis
    using True assms unfolding twice by (auto simp: toggleLayerVisibility_def)
next
  case False
  then have "filter (\<lambda>i. i \<noteq> layerId) prev = prev"
    by (auto simp: filter_id_conv)
  with False show ?thesis
    using assms by (auto simp: toggleLayerVisibility_def)
qed

theorem toggleLayerVisibility_membership_witness:
  "distinct [''wind'', ''temp''] \<and>
   ''temp'' \<notin> set (toggleLayerVisibility ''temp'' [''wind'', ''temp'']) \<and>
   ''wind'' \<in> set (toggleLayerVisibility ''temp'' [''wind'', ''temp'']) \<and>
   toggleLayerVisibility ''temp'' (toggleLayerVisibility ''temp'' [''wind'', ''temp''])
     = [''wind'', ''temp'']"
  using toggleLayerVisibility_membership [of "[''wind'', ''temp'']" "''temp''"]
  by simp

section \<open>The weather-engine wrapper\<close>

text \<open>
  C9. Adding a listener and removing it again leaves every other listener in place and
  drops every occurrence of it: the service is as before when the callback was not
  registered, and is not as before when it was. After a removal no notification invokes
  the callback.
\<close>

theorem listener_add_remove:
  "changeListeners (removeChangeListener cb (addChangeListener cb svc))
     = filter (\<lambda>l. l \<noteq> cb) (changeListeners svc)
   \<and> (cb \<notin> set (changeListeners svc) \<longrightarrow>
        removeChangeListener cb (addChangeListener cb svc) = svc)
   \<and> (cb \<in> set (changeListeners svc) \<longrightarrow>
        removeChangeListener cb (addChangeListener cb svc) \<noteq> svc)
   \<and> (\<forall>event d. cb \<notin> fst ` set (invocations (notifyListeners (removeChangeListener cb svc) event d)))"
proof -
  have a: "changeListeners (removeChangeListener cb (addChangeListener cb svc))
             = filter (\<lambda>l. l \<noteq> cb) (changeListeners svc)"
    by (simp add: removeChangeListener_def addChangeListener_def)
  have b: "removeChangeListener cb (addChangeListener cb svc) = svc"
    if "cb \<notin> set (changeListeners svc)"
  proof -
    from that have "filter (\<lambda>l. l \<noteq> cb) (changeListeners svc) = changeListeners svc"
      by (auto simp: filter_id_conv)
    then show ?thesis
      by (simp add: removeChangeListener_def addChangeListener_def)
  qed
  have c: "removeChangeListener cb (addChangeListener cb svc) \<noteq> svc"
    if "cb \<in> set (changeListeners svc)"
  proof
    assume "removeChangeListener cb (addChangeListener cb svc) = svc"
    with a have "filter (\<lambda>l. l \<noteq> cb) (changeListeners svc) = changeListeners svc" by simp
    then have "cb \<in> set (filter (\<lambda>l. l \<noteq> cb) (changeListeners svc))" using that by simp
    then show False by simp
  qed
  have d: "cb \<notin> fst ` set (invocations (notifyListeners (removeChangeListener cb svc) event d))"
    for event d
    by (auto simp: notifyListeners_def removeChangeListener_def invocations_notifyAll)
  from a b c d show ?thesis by blast
qed

theorem listener_add_remove_witness:
  "(3::nat) \<notin> set (changeListeners bareService) \<and>
   removeChangeListener 3 (addChangeListener 3 bareService) = bareService \<and>
   (1::nat) \<in> set (changeListeners bareService) \<and>
   removeChangeListener 1 (addChangeListener 1 bareService) \<noteq> bareService \<and>
   changeListeners (removeChangeListener 1 (addChangeListener 1 bareService)) = [2]"
  using listener_add_remove [of 3 bareService] listener_add_remove [of 1 bareService]
  by (simp add: bareService_def)

text \<open>
  C7, as stated, fails: \<open>wind\<close> is one of the five known layers, and on an engine whose
  \<open>overlays\<close> table has no entry for it \<open>setActiveLayer\<close> writes the store and notifies
  the listeners without calling any overlay function.
\<close>

theorem setActiveLayer_skips_missing_overlay:
  "''wind'' \<in> set (map layer_id getAvailableLayers) \<and>
   setActiveLayer ''wind'' bareService
     = [StoreSet ''overlay'' ''wind'',
        Invoke 1 ''layerChange'' [(''layerId'', ''wind'')],
        Invoke 2 ''layerChange'' [(''layerId'', ''wind'')]]"
  by (simp add: setActiveLayer_def bareService_def getAvailableLayers_def noOverlays_def
      returning_def notifyListeners_def quiet_def)

text \<open>
  C7, amended. On an engine that has a store whose \<open>set\<close> returns:
  \<open>setActiveLayer layerId\<close> writes \<open>layerId\<close> to the store key \<open>overlay\<close>. For a \<open>layerId\<close>
  that is not one of the five known layers it then notifies the listeners with
  \<open>layerChange\<close>. For a known \<open>layerId\<close> it looks the overlay function of that name up: with
  no entry it notifies the listeners; with a function that returns it calls the function
  and then notifies the listeners; when the engine has no \<open>overlays\<close> table, or the call
  raises, it logs the error and notifies nobody. \<open>setAltitudeLevel level\<close> writes \<open>level\<close>
  to the store key \<open>level\<close>, then notifies the listeners with \<open>levelChange\<close>. A
  notification invokes every registered listener once, in order of registration.
\<close>

theorem service_forwards_to_store:
  assumes "store (windyApi svc) = Some setRaises"
    and "\<not> setRaises ''overlay'' layerId"
    and "\<not> setRaises ''level'' level"
  shows "setActiveLayer layerId svc
           = [StoreSet ''overlay'' layerId]
             @ (if layerId \<notin> set (map layer_id getAvailableLayers)
                then notifyListeners svc ''layerChange'' [(''layerId'', layerId)]
                else (case overlays (windyApi svc) of
                        None \<Rightarrow> [ConsoleError ''Error setting active layer:'']
                      | Some table \<Rightarrow>
                          (case table layerId of
                             NoEntry \<Rightarrow> notifyListeners svc ''layerChange'' [(''layerId'', layerId)]
                           | Returns \<Rightarrow>
                               OverlayCall layerId
                                 # notifyListeners svc ''layerChange'' [(''layerId'', layerId)]
                           | Raises \<Rightarrow>
                               [OverlayCall layerId, ConsoleError ''Error setting active layer:''])))
       \<and> setAltitudeLevel level svc
           = Inr ([StoreSet ''level'' level]
                  @ notifyListeners svc ''levelChange'' [(''level'', level)])
       \<and> invocations (notifyListeners svc event d)
           = map (\<lambda>l. (l, event, d)) (changeListeners svc)"
proof -
  have "setActiveLayer layerId svc
           = [StoreSet ''overlay'' layerId]
             @ (if layerId \<notin> set (map layer_id getAvailableLayers)
                then notifyListeners svc ''layerChange'' [(''layerId'', layerId)]
                else (case overlays (windyApi svc) of
                        None \<Rightarrow> [ConsoleError ''Error setting active layer:'']
                      | Some table \<Rightarrow>
                          (case table layerId of
                             NoEntry \<Rightarrow> notifyListeners svc ''layerChange'' [(''layerId'', layerId)]
                           | Returns \<Rightarrow>
                               OverlayCall layerId
                                 # notifyListeners svc ''layerChange'' [(''layerId'', layerId)]
                           | Raises \<Rightarrow>
                               [OverlayCall layerId, ConsoleError ''Error setting active layer:''])))"
  proof (cases "find (\<lambda>l. layer_id l = layerId) getAvailableLayers")
    case None
    from find_unknown_layer [OF None] None assms(1,2) show ?thesis
      by (simp add: setActiveLayer_def)
  next
    case (Some layer)
    from find_known_layer [OF Some]
    have fn: "overlayFunction layer = layerId"
      and known: "layerId \<in> set (map layer_id getAvailableLayers)"
      by simp_all
    from Some assms(1,2) known show ?thesis
      by (simp add: setActiveLayer_def fn split: option.splits overlayFn.splits)
  qed
  moreover have "setAltitudeLevel level svc
           = Inr ([StoreSet ''level'' level]
                  @ notifyListeners svc ''levelChange'' [(''level'', level)])"
    using assms(1,3) by (simp add: setAltitudeLevel_def)
  moreover have "invocations (notifyListeners svc event d)
           = map (\<lambda>l. (l, event, d)) (changeListeners svc)"
    by (simp add: notifyListeners_def invocations_notifyAll)
  ultimately show ?thesis by blast
qed

theorem service_forwards_to_store_witness:
  "store (windyApi fullService) = Some returning \<and>
   \<not> returning ''overlay'' ''temp'' \<and> \<not> returning ''level'' ''850h'' \<and>
   setActiveLayer ''temp'' fullService
     = [StoreSet ''overlay'' ''temp'', OverlayCall ''temp'',
        Invoke 1 ''layerChange'' [(''layerId'', ''temp'')],
        Invoke 2 ''layerChange'' [(''layerId'', ''temp'')]] \<and>
   setAltitudeLevel ''850h'' fullService
     = Inr [StoreSet ''level'' ''850h'',
            Invoke 1 ''levelChange'' [(''level'', ''850h'')],
            Invoke 2 ''levelChange'' [(''level'', ''850h'')]] \<and>
   setActiveLayer ''temp'' brokenService
     = [StoreSet ''overlay'' ''temp'', OverlayCall ''temp'',
        ConsoleError ''Error setting active layer:'']"
  using service_forwards_to_store [of fullService returning "''temp''" "''850h''"]
    service_forwards_to_store [of brokenService returning "''temp''" "''850h''"]
  by (simp add: fullService_def brokenService_def knownOverlays_def raisingOverlays_def
      returning_def getAvailableLayers_def notifyListeners_def quiet_def)

section \<open>Zoom-driven view switching\<close>

lemma hasClass_windyHidden:
  "windyClassList s \<noteq> None \<Longrightarrow> hasClass ''windy-hidden'' (windyHidden hide s) = hide"
  by (auto simp: hasClass_def windyHidden_def classListAdd_def classListRemove_def)

lemma hasClass_emit: "hasClass c (emit es s) = hasClass c s"
  by (simp add: hasClass_def emit_def)

lemma showBackupLayer_windyHidden: "showBackupLayer (windyHidden hide s) = showBackupLayer s"
  by (simp add: windyHidden_def)

text \<open>
  C1, as stated, fails on the \<open>redrawFinished\<close> path: the handler adds the class only under
  \<open>windyAPI.map && shouldShowDetailedView\<close>. On an engine without a map, with the view
  already in detailed mode, a redraw at zoom 12 keeps the detailed view on and takes
  \<open>windy-hidden\<close> off the container.
\<close>

theorem redrawFinished_without_map:
  "showBackupLayer detailedNoMap \<and> hasClass ''windy-hidden'' detailedNoMap \<and>
   redrawFinished False (Some (Num 12)) detailedNoMap
     = Inr (detailedNoMap\<lparr>currentZoom := Num 12, windyClassList := Some [''windy-container'']\<rparr>) \<and>
   gt (Num 12) (Num 10) \<and>
   showBackupLayer (detailedNoMap\<lparr>currentZoom := Num 12, windyClassList := Some [''windy-container'']\<rparr>) \<and>
   \<not> hasClass ''windy-hidden''
        (detailedNoMap\<lparr>currentZoom := Num 12, windyClassList := Some [''windy-container'']\<rparr>)"
  by (simp add: detailedNoMap_def redrawFinished_def windyHidden_def hasClass_def
      classListRemove_def windyInitCallback_def)

text \<open>
  C1, amended. For every zoom level \<open>z\<close> that the \<open>zoomend\<close> handler or the
  \<open>redrawFinished\<close> handler receives, the detailed view is switched on if and only if
  \<open>z > 10\<close>, one comparison. When the document has the \<open>windy\<close> container: after
  \<open>zoomend\<close> it carries \<open>windy-hidden\<close> if and only if \<open>z > 10\<close>; after \<open>redrawFinished\<close> it
  carries \<open>windy-hidden\<close> if and only if \<open>z > 10\<close> and the engine has a map. So the class is
  absent whenever the detailed view is off, and present whenever it is on except after a
  redraw on an engine without a map.
\<close>

theorem zoom_threshold:
  "showBackupLayer (handleZoomEnd z s) = gt z (Num 10)
   \<and> (\<exists>s'. redrawFinished hasMap (Some z) s = Inr s'
         \<and> showBackupLayer s' = gt z (Num 10)
         \<and> (windyClassList s \<noteq> None \<longrightarrow>
               hasClass ''windy-hidden'' (handleZoomEnd z s) = gt z (Num 10)
             \<and> hasClass ''windy-hidden'' s' = (hasMap \<and> gt z (Num 10))))"
proof -
  have flag: "showBackupLayer (handleZoomEnd z s) = gt z (Num 10)"
    by (simp add: handleZoomEnd_def Let_def showBackupLayer_windyHidden emit_def)
  have cls: "hasClass ''windy-hidden'' (handleZoomEnd z s) = gt z (Num 10)"
    if "windyClassList s \<noteq> None"
    using that by (simp add: handleZoomEnd_def Let_def hasClass_emit hasClass_windyHidden)
  define s' where "s' = windyHidden (hasMap \<and> gt z (Num 10))
                          (s\<lparr>currentZoom := z, showBackupLayer := gt z (Num 10)\<rparr>)"
  have r: "redrawFinished hasMap (Some z) s = Inr s'"
    by (cases hasMap; cases "gt z (Num 10)"; simp add: redrawFinished_def Let_def s'_def)
  have f': "showBackupLayer s' = gt z (Num 10)"
    by (simp add: s'_def showBackupLayer_windyHidden)
  have c': "hasClass ''windy-hidden'' s' = (hasMap \<and> gt z (Num 10))"
    if "windyClassList s \<noteq> None"
    using that unfolding s'_def by (simp add: hasClass_windyHidden)
  from flag cls r f' c' show ?thesis by blast
qed

theorem zoom_threshold_witness:
  "windyClassList mounted \<noteq> None \<and> gt (Num 11) (Num 10) \<and>
   showBackupLayer (handleZoomEnd (Num 11) mounted) \<and>
   hasClass ''windy-hidden'' (handleZoomEnd (Num 11) mounted) \<and>
   \<not> hasClass ''windy-hidden'' (handleZoomEnd (Num 10) mounted)"
  using zoom_threshold [of "Num 11" mounted True] zoom_threshold [of "Num 10" mounted True]
  by (auto simp: mounted_def)

section \<open>Start-up: loading the scripts and initialising the engine\<close>

lemma script_urls_differ: "leafletJs \<noteq> libBoot" "libBoot \<noteq> leafletJs"
  by (simp_all add: leafletJs_def libBoot_def)

lemmas startup_defs = startup_def loadScripts_def loadLeaflet_def loadWindy_def
  loadScriptsCatch_def emit_def initializeWindy_def initializeWindyCatch_def render_def
  windowAfter_def mounted_def Let_def

text \<open>The effects of a start-up, written out.\<close>

lemma startup_trace:
  "trace (startup \<lparr>hasL = a, windyInitIsFunction = b\<rparr> leaflet windy defined raises)
     = (if a then []
        else [AppendScript leafletJs, AppendCss leafletCss,
              if leaflet = Onload then ScriptOnload leafletJs else ScriptOnerror leafletJs])
       @ (if a \<or> leaflet = Onload then
            (if b then []
             else [AppendScript libBoot,
                   if windy = Onload then ScriptOnload libBoot else ScriptOnerror libBoot])
            @ (if b \<or> (windy = Onload \<and> defined) then [SetScriptsLoaded, WindyInit] else [])
          else [])"
  by (cases a; cases b; cases leaflet; cases windy; cases defined; cases raises;
      simp add: startup_defs)

lemma startup_scriptsLoaded:
  "scriptsLoaded (startup \<lparr>hasL = a, windyInitIsFunction = b\<rparr> leaflet windy defined raises)
     = ((a \<or> leaflet = Onload) \<and> (b \<or> (windy = Onload \<and> defined)))"
  by (cases a; cases b; cases leaflet; cases windy; cases defined; cases raises;
      simp add: startup_defs)

lemma startup_isMapLoading:
  "isMapLoading (startup \<lparr>hasL = a, windyInitIsFunction = b\<rparr> leaflet windy defined raises)"
  by (cases a; cases b; cases leaflet; cases windy; cases defined; cases raises;
      simp add: startup_defs)

text \<open>
  C3 does not hold of the code. Every failure of a start-up is caught and stored as the
  error of the map state, but no failure path sets \<open>isMapLoading\<close> to false, and the
  component returns the loading view before it looks at \<open>mapError\<close>. So every start-up,
  failed or not, ends in the loading view (showing the status), never in the error
  overlay. Evaluated on an empty page: the Leaflet script failing, the engine script
  failing, the engine script loading without defining \<open>windyInit\<close>; and, on a page with
  both libraries, \<open>windyInit\<close> raising.
\<close>

theorem failed_startup_renders_loading_view:
  "render (startup w leaflet windy defined raises)
     = LoadingOverlay (status (startup w leaflet windy defined raises))
   \<and> mapError (startup emptyWindow Onerror Onload True None) = Some ''Failed to load Leaflet''
   \<and> render (startup emptyWindow Onerror Onload True None)
       = LoadingOverlay ''Failed to load scripts''
   \<and> mapError (startup emptyWindow Onload Onerror True None) = Some ''Failed to load Windy API''
   \<and> render (startup emptyWindow Onload Onerror True None)
       = LoadingOverlay ''Failed to load scripts''
   \<and> mapError (startup emptyWindow Onload Onload False None)
       = Some ''Windy API loaded but windyInit function not found''
   \<and> render (startup emptyWindow Onload Onload False None)
       = LoadingOverlay ''Failed to load scripts''
   \<and> mapError (startup readyWindow Onload Onload True (Some ''boom'')) = Some ''boom''
   \<and> render (startup readyWindow Onload Onload True (Some ''boom''))
       = LoadingOverlay ''Failed to initialize Windy''"
proof -
  obtain a b where w: "w = \<lparr>hasL = a, windyInitIsFunction = b\<rparr>"
    by (cases w) auto
  have "render (startup w leaflet windy defined raises)
          = LoadingOverlay (status (startup w leaflet windy defined raises))"
    unfolding w using startup_isMapLoading [of a b leaflet windy defined raises]
    by (simp add: render_def)
  moreover have
    "mapError (startup emptyWindow Onerror Onload True None) = Some ''Failed to load Leaflet''"
    "render (startup emptyWindow Onerror Onload True None)
       = LoadingOverlay ''Failed to load scripts''"
    by (simp_all add: startup_defs emptyWindow_def)
  moreover have
    "mapError (startup emptyWindow Onload Onerror True None) = Some ''Failed to load Windy API''"
    "render (startup emptyWindow Onload Onerror True None)
       = LoadingOverlay ''Failed to load scripts''"
    by (simp_all add: startup_defs emptyWindow_def)
  moreover have
    "mapError (startup emptyWindow Onload Onload False None)
       = Some ''Windy API loaded but windyInit function not found''"
    "render (startup emptyWindow Onload Onload False None)
       = LoadingOverlay ''Failed to load scripts''"
    by (simp_all add: startup_defs emptyWindow_def)
  moreover have
    "mapError (startup readyWindow Onload Onload True (Some ''boom'')) = Some ''boom''"
    "render (startup readyWindow Onload Onload True (Some ''boom''))
       = LoadingOverlay ''Failed to initialize Windy''"
    by (simp_all add: startup_defs readyWindow_def)
  ultimately show ?thesis by blast
qed

text \<open>
  C5. In every start-up: the Leaflet script is injected only when \<open>window.L\<close> is absent and
  the engine script only when \<open>windyInit\<close> is not a function; \<open>scriptsLoaded\<close> is set only
  after the \<open>onload\<close> of every injected script; the initialisation effect changes nothing
  while \<open>scriptsLoaded\<close> is false; and \<open>windyInit\<close> is called only after \<open>scriptsLoaded\<close> has
  been set, hence after both scripts have loaded (or were already there).
\<close>

theorem windyInit_only_after_scripts:
  "(AppendScript leafletJs \<in> set (trace (startup w leaflet windy defined raises)) \<longrightarrow> \<not> hasL w)
   \<and> (AppendScript libBoot \<in> set (trace (startup w leaflet windy defined raises)) \<longrightarrow>
        \<not> windyInitIsFunction w)
   \<and> scriptsLoaded (startup w leaflet windy defined raises)
       = (SetScriptsLoaded \<in> set (trace (startup w leaflet windy defined raises)))
   \<and> (scriptsLoaded (startup w leaflet windy defined raises) \<longrightarrow>
        (hasL w \<or> precedes (ScriptOnload leafletJs) SetScriptsLoaded
                     (trace (startup w leaflet windy defined raises)))
      \<and> (windyInitIsFunction w \<or> precedes (ScriptOnload libBoot) SetScriptsLoaded
                     (trace (startup w leaflet windy defined raises))))
   \<and> (\<not> scriptsLoaded s \<longrightarrow> initializeWindy w' container raises' s = s)
   \<and> (WindyInit \<in> set (trace (startup w leaflet windy defined raises)) \<longrightarrow>
        precedes SetScriptsLoaded WindyInit (trace (startup w leaflet windy defined raises))
      \<and> (hasL w \<or> precedes (ScriptOnload leafletJs) WindyInit
                     (trace (startup w leaflet windy defined raises)))
      \<and> (windyInitIsFunction w \<or> precedes (ScriptOnload libBoot) WindyInit
                     (trace (startup w leaflet windy defined raises))))"
proof -
  obtain a b where w: "w = \<lparr>hasL = a, windyInitIsFunction = b\<rparr>"
    by (cases w) auto
  have noop: "\<not> scriptsLoaded s \<longrightarrow> initializeWindy w' container raises' s = s"
    by (simp add: initializeWindy_def)
  have rest: ?thesis if "\<not> scriptsLoaded s \<longrightarrow> initializeWindy w' container raises' s = s"
    using that unfolding w startup_trace startup_scriptsLoaded
    by (cases a; cases b; cases leaflet; cases windy; cases defined;
        simp add: script_urls_differ)
  from noop show ?thesis by (rule rest)
qed

theorem windyInit_only_after_scripts_witness:
  "WindyInit \<in> set (trace (startup emptyWindow Onload Onload True None)) \<and>
   scriptsLoaded (startup emptyWindow Onload Onload True None) \<and>
   AppendScript leafletJs \<in> set (trace (startup emptyWindow Onload Onload True None)) \<and>
   \<not> hasL emptyWindow \<and>
   precedes (ScriptOnload leafletJs) WindyInit (trace (startup emptyWindow Onload Onload True None)) \<and>
   precedes (ScriptOnload libBoot) WindyInit (trace (startup emptyWindow Onload Onload True None)) \<and>
   \<not> scriptsLoaded mounted \<and> initializeWindy readyWindow True None mounted = mounted"
  using windyInit_only_after_scripts [of emptyWindow Onload Onload True None mounted readyWindow True None]
  by (simp add: emptyWindow_def startup_trace startup_scriptsLoaded script_urls_differ mounted_def)

section \<open>The data-fetching hook\<close>

lemma last_split_weather: "last (split CHR ''/'' ''weather-stations'') = ''weather-stations''"
  by simp

lemma last_split_pollution: "last (split CHR ''/'' ''pollution-data'') = ''pollution-data''"
  by simp

text \<open>
  When the last piece of the endpoint is empty the hook passes the whole endpoint on; the
  endpoint then ends in a slash (or is empty), names no known dataset, and the mock
  service answers as it does for the empty name.
\<close>

lemma getDataPoints_datasetName:
  "getDataPoints (datasetName e) = getDataPoints (last (split CHR ''/'' e))"
proof (cases "last (split CHR ''/'' e) = []")
  case True
  have "e \<noteq> ''weather-stations''"
    using True last_split_weather by auto
  moreover have "e \<noteq> ''pollution-data''"
    using True last_split_pollution by auto
  ultimately have "getDataPoints e = getDataPoints []"
    by (simp add: getDataPoints_def)
  moreover have "datasetName e = e"
    using True by (simp add: datasetName_def pop_def split_nonempty)
  ultimately show ?thesis using True by simp
next
  case False
  then show ?thesis
    by (simp add: datasetName_def pop_def split_nonempty)
qed

text \<open>
  C2. Whatever the options, the argument, the browser and the previous state are,
  \<open>fetchData\<close> makes no network call, resolves with the records the mock service gives
  for the last \<open>/\<close>-separated piece of the hook's endpoint, and leaves the state with that
  data, \<open>loading\<close> false and no error.
\<close>

theorem fetchData_returns_mock_records:
  "filter isNetworkCall (fst (fetchData br apiUrl options customOptions now prev)) = []
   \<and> snd (snd (fetchData br apiUrl options customOptions now prev))
       = Inr (Records (getDataPoints (last (split CHR ''/'' (endpoint options)))))
   \<and> data (fst (snd (fetchData br apiUrl options customOptions now prev)))
       = Some (Records (getDataPoints (last (split CHR ''/'' (endpoint options)))))
   \<and> loading (fst (snd (fetchData br apiUrl options customOptions now prev))) = False
   \<and> error (fst (snd (fetchData br apiUrl options customOptions now prev))) = None"
  by (simp add: fetchData_def USE_MOCK_DATA_def getMockData_def getDataPoints_datasetName Let_def)

lemma fetchData_station_example:
  "snd (snd (fetchData offline ''http://localhost:3001/api'' stationOptions None 1700 idle))
     = Inr (Records (getDataPoints ''weather-stations''))"
  by (simp add: fetchData_def USE_MOCK_DATA_def getMockData_def datasetName_def pop_def
      stationOptions_def Let_def)

text \<open>
  C6. \<open>fetchData\<close> does three things, in this order: it sets \<open>loading\<close>, waits for one timer
  of 500 ms, and stores the mock records; it then resolves with them. The timer comes
  before the records in every call.
\<close>

theorem fetchData_delay_first:
  "fst (fetchData br apiUrl options customOptions now prev)
     = [SetState (prev\<lparr>loading := True, error := None\<rparr>),
        SetTimeout 500,
        SetState \<lparr>data = Some (getMockData options), loading = False, error = None,
                  timestamp = Some now\<rparr>]
   \<and> snd (snd (fetchData br apiUrl options customOptions now prev)) = Inr (getMockData options)
   \<and> fst (snd (fetchData br apiUrl options customOptions now prev))
       = \<lparr>data = Some (getMockData options), loading = False, error = None,
          timestamp = Some now\<rparr>"
  by (simp add: fetchData_def USE_MOCK_DATA_def Let_def)

section \<open>Configuration\<close>

text \<open>
  C4, as stated, fails: a runtime value that is present but empty is not returned. With
  \<open>REACT_APP_API_URL\<close> injected as the empty string and no build-time value, \<open>getEnvVar\<close>
  gives the hardcoded fallback.
\<close>

theorem empty_runtime_value_is_skipped:
  "injectedEmpty ''REACT_APP_API_URL'' = Some [] \<and>
   getEnvVar (Some injectedEmpty) noBuildEnv ''API_URL'' ''http://localhost:3001/api''
     = ''http://localhost:3001/api''"
  by (simp add: getEnvVar_def injectedEmpty_def noBuildEnv_def)

text \<open>
  C4, amended. For every key: a runtime value \<open>window._env_["REACT_APP_" + key]\<close> that is
  present and not empty is returned; otherwise (no \<open>window._env_\<close>, no such entry, or an
  empty one) the build-time value \<open>process.env["REACT_APP_" + key]\<close> is returned if it is
  defined, and the hardcoded fallback if it is not. For the three numeric keys the
  resolved string goes through \<open>parseFloat\<close>, and a NaN result gives the numeric fallback
  (10.835, 106.769 and 9).
\<close>

theorem getEnvVar_precedence:
  "(window_env = Some e \<and> e (''REACT_APP_'' @ key) = Some v \<and> v \<noteq> [] \<longrightarrow>
      getEnvVar window_env process_env key fallback = v)
   \<and> ((window_env = None \<or> (\<exists>e. window_env = Some e \<and>
          (e (''REACT_APP_'' @ key) = None \<or> e (''REACT_APP_'' @ key) = Some []))) \<longrightarrow>
      getEnvVar window_env process_env key fallback
        = (case process_env (''REACT_APP_'' @ key) of Some envVar \<Rightarrow> envVar | None \<Rightarrow> fallback))
   \<and> MAP_CENTER_LAT (env parseFloat window_env process_env)
       = (if isNaN (parseFloat (getEnvVar window_env process_env ''MAP_CENTER_LAT'' ''10.835''))
          then Num 10.835
          else parseFloat (getEnvVar window_env process_env ''MAP_CENTER_LAT'' ''10.835''))
   \<and> MAP_CENTER_LNG (env parseFloat window_env process_env)
       = (if isNaN (parseFloat (getEnvVar window_env process_env ''MAP_CENTER_LNG'' ''106.769''))
          then Num 106.769
          else parseFloat (getEnvVar window_env process_env ''MAP_CENTER_LNG'' ''106.769''))
   \<and> MAP_DEFAULT_ZOOM (env parseFloat window_env process_env)
       = (if isNaN (parseFloat (getEnvVar window_env process_env ''MAP_DEFAULT_ZOOM'' ''9''))
          then Num 9
          else parseFloat (getEnvVar window_env process_env ''MAP_DEFAULT_ZOOM'' ''9''))"
  by (auto simp: getEnvVar_def env_def parseNumber_def Let_def split: option.splits)

theorem getEnvVar_precedence_witness:
  "injected (''REACT_APP_'' @ ''API_URL'') = Some ''https://api.example.org'' \<and>
   getEnvVar (Some injected) buildEnv ''API_URL'' ''http://localhost:3001/api''
     = ''https://api.example.org'' \<and>
   injectedEmpty (''REACT_APP_'' @ ''API_URL'') = Some [] \<and>
   getEnvVar (Some injectedEmpty) buildEnv ''API_URL'' ''http://localhost:3001/api''
     = ''https://build.example.org'' \<and>
   getEnvVar None noBuildEnv ''API_URL'' ''http://localhost:3001/api''
     = ''http://localhost:3001/api'' \<and>
   isNaN (parseFloatSample (getEnvVar None buildEnv ''MAP_DEFAULT_ZOOM'' ''9'')) \<and>
   MAP_DEFAULT_ZOOM (env parseFloatSample None buildEnv) = Num 9 \<and>
   MAP_DEFAULT_ZOOM (env parseFloatSample None noBuildEnv) = Num 9"
  using getEnvVar_precedence [of "Some injected" injected "''API_URL''" "''https://api.example.org''"
      buildEnv "''http://localhost:3001/api''" parseFloatSample]
    getEnvVar_precedence [of "Some injectedEmpty" injectedEmpty "''API_URL''" "[]"
      buildEnv "''http://localhost:3001/api''" parseFloatSample]
    getEnvVar_precedence [of None injected "''API_URL''" "[]"
      noBuildEnv "''http://localhost:3001/api''" parseFloatSample]
    getEnvVar_precedence [of None injected "''MAP_DEFAULT_ZOOM''" "[]"
      buildEnv "''9''" parseFloatSample]
  by (simp add: injected_def injectedEmpty_def buildEnv_def noBuildEnv_def parseFloatSample_def
      getEnvVar_def)

end
